theory Spec2Isabelle
  imports Main "HOL-Library.Sublist"
begin

section \<open>Python string operations used by \<^verbatim>\<open>streamlit_app.py\<close>\<close>

text \<open>
  A Python \<^verbatim>\<open>str\<close> is modelled as a \<^typ>\<open>string\<close>: the list of its code points, each
  below 256. The functions of this section are the methods of \<^verbatim>\<open>str\<close> the application
  calls: \<^verbatim>\<open>startswith\<close>, \<^verbatim>\<open>join\<close>, \<^verbatim>\<open>split\<close>, \<^verbatim>\<open>replace\<close>, \<^verbatim>\<open>strip\<close>, the
  operator \<^verbatim>\<open>in\<close> and \<^verbatim>\<open>str()\<close> of an integer.
\<close>

definition startswith :: "string \<Rightarrow> string \<Rightarrow> bool" where
  "startswith s p = prefix p s"

text \<open>\<^verbatim>\<open>sep.join(xs)\<close>.\<close>

fun join_str :: "string \<Rightarrow> string list \<Rightarrow> string" where
  "join_str sep [] = []"
| "join_str sep [x] = x"
| "join_str sep (x # y # ys) = x @ sep @ join_str sep (y # ys)"

text \<open>
  \<^verbatim>\<open>s.split(sep, maxsplit)\<close> for a separator that is not empty (every separator of the
  application is a literal): the string is scanned from the left, it is cut at each
  occurrence of the separator that does not overlap the previous one, and after
  \<open>maxsplit\<close> cuts the remainder is one piece. A negative \<open>maxsplit\<close> puts no limit.
  \<open>cur\<close> is the piece being collected.
\<close>

fun split_scan :: "string \<Rightarrow> int \<Rightarrow> string \<Rightarrow> string \<Rightarrow> string list" where
  "split_scan sep k cur [] = [cur]"
| "split_scan sep k cur (c # cs) =
     (if k \<noteq> 0 \<and> prefix sep (c # cs)
      then cur # split_scan sep (k - 1) [] (drop (length sep - 1) cs)
      else split_scan sep k (cur @ [c]) cs)"

definition split_str :: "string \<Rightarrow> string \<Rightarrow> int \<Rightarrow> string list" where
  "split_str s sep maxsplit = split_scan sep maxsplit [] s"

text \<open>
  \<^verbatim>\<open>s.replace(old, new)\<close>: every occurrence of \<open>old\<close>, found from the left and not
  overlapping the previous one, becomes \<open>new\<close>. For the empty \<open>old\<close> Python puts \<open>new\<close>
  before every character and at the end.
\<close>

fun replace_scan :: "string \<Rightarrow> string \<Rightarrow> string \<Rightarrow> string" where
  "replace_scan old new [] = []"
| "replace_scan old new (c # cs) =
     (if prefix old (c # cs)
      then new @ replace_scan old new (drop (length old - 1) cs)
      else c # replace_scan old new cs)"

definition replace_str :: "string \<Rightarrow> string \<Rightarrow> string \<Rightarrow> string" where
  "replace_str s old new =
     (if old = [] then new @ concat (map (\<lambda>c. c # new) s) else replace_scan old new s)"

text \<open>
  \<^verbatim>\<open>s.strip()\<close> removes the white space at both ends; the white-space code points
  below 256 are 9 to 13, 28 to 32, 133 and 160.
\<close>

definition isspace :: "char \<Rightarrow> bool" where
  "isspace c = (let n = (of_char c :: nat) in (9 \<le> n \<and> n \<le> 13) \<or> (28 \<le> n \<and> n \<le> 32) \<or> n = 133 \<or> n = 160)"

definition strip :: "string \<Rightarrow> string" where
  "strip s = rev (dropWhile isspace (rev (dropWhile isspace s)))"

text \<open>\<^verbatim>\<open>sub in s\<close>.\<close>

fun contains :: "string \<Rightarrow> string \<Rightarrow> bool" where
  "contains sub [] = (sub = [])"
| "contains sub (c # cs) = (prefix sub (c # cs) \<or> contains sub cs)"

text \<open>\<^verbatim>\<open>str(n)\<close> for an integer: its decimal digits, after a minus sign when negative.\<close>

fun str_nat :: "nat \<Rightarrow> string" where
  "str_nat n =
     (if n < 10 then [''0123456789'' ! n]
      else str_nat (n div 10) @ [''0123456789'' ! (n mod 10)])"

declare str_nat.simps [simp del]

definition str_int :: "int \<Rightarrow> string" where
  "str_int i = (if i < 0 then ''-'' @ str_nat (nat (- i)) else str_nat (nat i))"

section \<open>Exceptions\<close>

text \<open>
  \<open>ValueError\<close>, \<open>IndexError\<close> and \<open>TypeError\<close> are raised by the application's own
  statements (a tuple assignment of the wrong length, an index out of range, a join over
  \<^verbatim>\<open>None\<close>); \<open>Raised msg\<close> is an exception of class \<^verbatim>\<open>Exception\<close> raised by a library call,
  with \<open>msg\<close> its \<^verbatim>\<open>str()\<close>.
\<close>

datatype exn = ValueError | IndexError | TypeError | Raised string

section \<open>\<^verbatim>\<open>resolve_hostname\<close>\<close>

text \<open>
  \<^verbatim>\<open>socket.gethostbyname\<close> is a parameter. For a host name it answers with the address
  (\<open>Resolved ip\<close>), raises \<^verbatim>\<open>socket.gaierror\<close> (\<open>Gaierror\<close>), or raises another exception
  (\<open>DnsRaises msg\<close>: \<^verbatim>\<open>UnicodeError\<close> for a name with an empty label or a label of more
  than 63 characters, for one). The source catches \<^verbatim>\<open>socket.gaierror\<close> only, so the other
  exception leaves the function. The function returns the pair the source returns,
  \<^verbatim>\<open>None\<close> of Python being \<open>None\<close>.
\<close>

datatype dns_result = Resolved string | Gaierror | DnsRaises string

definition resolve_hostname ::
  "(string \<Rightarrow> dns_result) \<Rightarrow> string \<Rightarrow> exn + (string option \<times> string option)" where
  "resolve_hostname gethostbyname url =
     (if startswith url ''rtmp://'' \<or> startswith url ''rtmps://'' then
        (case split_str url ''://'' 1 of
           [protocol, rest] \<Rightarrow>
             (case split_str rest ''/'' (- 1) of
                [] \<Rightarrow> Inl IndexError
              | hostname # _ \<Rightarrow>
                  (case gethostbyname hostname of
                     Resolved ip \<Rightarrow> Inr (Some (replace_str url hostname ip), None)
                   | Gaierror \<Rightarrow> Inr (None, Some (''Failed to resolve hostname: '' @ hostname))
                   | DnsRaises msg \<Rightarrow> Inl (Raised msg)))
         | _ \<Rightarrow> Inl ValueError)
      else Inr (Some url, None))"

section \<open>\<^verbatim>\<open>build_ffmpeg_command\<close>\<close>

definition resolution_map :: "(string \<times> string) list" where
  "resolution_map =
     [(''720p'', ''1280x720''), (''480p'', ''854x480''), (''360p'', ''640x360''),
      (''180p'', ''320x180''), (''1080p'', ''1920x1080''), (''4K'', ''3840x2160'')]"

text \<open>
  The function returns the argument list and its rendering as one string. The tuple
  assignment \<^verbatim>\<open>audio_channels, audio_bitrate = audio_option.split('|')\<close> raises
  \<^verbatim>\<open>ValueError\<close> unless the split has exactly two pieces.
\<close>

definition build_ffmpeg_command ::
  "string \<Rightarrow> string \<Rightarrow> string \<Rightarrow> bool \<Rightarrow> string \<Rightarrow> string \<Rightarrow> int \<Rightarrow> string
     \<Rightarrow> exn + (string list \<times> string)" where
  "build_ffmpeg_command video_url logo_url overlay_settings enable_logo resolution rtmp_url fps
       audio_option =
     (let res_str = (case map_of resolution_map resolution of Some r \<Rightarrow> r | None \<Rightarrow> ''1280x720'');
          command = [''ffmpeg'', ''-re'', ''-y'', ''-i'', video_url];
          command =
            (if enable_logo
             then command @ [''-i'', logo_url, ''-filter_complex'',
                    ''[1]scale=iw*0.6:-1[wm];[0][wm]'' @ overlay_settings]
             else command);
          command = command @ [''-s'', res_str];
          command = (if fps \<noteq> 0 then command @ [''-r'', str_int fps] else command)
      in case (if audio_option = ''Copy Audio from File''
               then Inr (command @ [''-c:a'', ''copy''])
               else (case split_str audio_option ''|'' (- 1) of
                       [audio_channels, audio_bitrate] \<Rightarrow>
                         Inr (command @ [''-ac'', audio_channels, ''-b:a'', audio_bitrate])
                     | _ \<Rightarrow> Inl ValueError)) of
           Inl e \<Rightarrow> Inl e
         | Inr command \<Rightarrow>
             (let command = command @
                    [''-ar'', ''44100'', ''-pix_fmt'', ''yuv420p'', ''-tune'', ''zerolatency'',
                     ''-maxrate'', ''2000k'', ''-preset'', ''veryfast'', ''-vcodec'', ''libx264'',
                     ''-ab'', ''128k'', ''-vb'', ''660k'', ''-f'', ''flv'', rtmp_url]
              in Inr (command, join_str '' '' command)))"

text \<open>The choices the form offers for the audio option.\<close>

definition audio_options :: "string list" where
  "audio_options = [''Copy Audio from File'', ''1|128k'', ''2|128k'', ''2|256k'']"

section \<open>Child processes and the module state\<close>

text \<open>
  A \<^verbatim>\<open>Popen\<close> object is the number of the child it stands for. The state the functions
  work on is the module variable \<^verbatim>\<open>ffmpeg_process\<close> (\<open>None\<close> as in Python) together with
  what the operating system holds: the children that have not exited (\<open>alive\<close>), the
  number of children spawned so far (the next child's number) and the calls made on
  \<^verbatim>\<open>Popen\<close> objects, in the order they were made (\<open>oslog\<close>).
\<close>

datatype signal = SIGINT | SIGKILL

datatype event =
    Popen "string list" nat
  | Readline nat
  | Poll nat
  | SendSignal nat signal
  | WaitTimeout nat nat
  | Kill nat
  | Wait nat
  | Run "string list"

record world =
  ffmpeg_process :: "nat option"
  alive :: "nat set"
  spawned :: nat
  oslog :: "event list"

text \<open>The state after the module is loaded: \<^verbatim>\<open>ffmpeg_process = None\<close>, no child yet.\<close>

definition init_world :: world where
  "init_world = \<lparr>ffmpeg_process = None, alive = {}, spawned = 0, oslog = []\<rparr>"

definition record_call :: "event \<Rightarrow> world \<Rightarrow> world" where
  "record_call e w = w\<lparr>oslog := oslog w @ [e]\<rparr>"

section \<open>\<^verbatim>\<open>start_ffmpeg\<close>\<close>

text \<open>
  What the environment answers during one call of \<^verbatim>\<open>start_ffmpeg\<close>: the resolver; whether
  \<^verbatim>\<open>subprocess.Popen\<close> raises (\<open>Some msg\<close>) or spawns the child (\<open>None\<close>); what the
  \<open>i\<close>-th call of \<^verbatim>\<open>stderr.readline\<close> does on the new child: it returns a string
  (\<open>Inr line\<close>, the empty string being the end of the stream) or raises (\<open>Inl msg\<close>: the
  pipe is opened with \<^verbatim>\<open>text=True\<close>, so bytes that do not decode raise
  \<^verbatim>\<open>UnicodeDecodeError\<close>); and whether the child has exited when it is polled after the
  loop.
\<close>

record start_env =
  gethostbyname :: "string \<Rightarrow> dns_result"
  popen_raises :: "string option"
  stderr_readline :: "nat \<Rightarrow> string + string"
  exited_at_eof :: bool

text \<open>
  The loop \<^verbatim>\<open>for line in iter(ffmpeg_process.stderr.readline, '')\<close>: \<open>i\<close> calls of
  \<^verbatim>\<open>readline\<close> have been made, \<open>logs\<close> is the list built so far. The result is the number
  of calls made, with the list when the loop ended at the empty string (\<open>Inr logs\<close>) or
  the exception that ended it (\<open>Inl msg\<close>); the loop does not return (\<open>None\<close>) when every
  call returns a line.
\<close>

partial_function (option) read_stderr ::
  "(nat \<Rightarrow> string + string) \<Rightarrow> nat \<Rightarrow> string list
     \<Rightarrow> (nat \<times> (string + string list)) option" where
  "read_stderr readline i logs =
     (case readline i of
        Inl e \<Rightarrow> Some (Suc i, Inl e)
      | Inr line \<Rightarrow>
          if line = [] then Some (Suc i, Inr logs)
          else
            (let logs = (if line \<noteq> [] then logs @ [strip line] else logs)
             in if line = [] then Some (Suc i, Inr logs)
                else read_stderr readline (Suc i) logs))"

text \<open>
  The \<^verbatim>\<open>try\<close> block of \<^verbatim>\<open>start_ffmpeg\<close> with its handler, which turns an exception of
  \<^verbatim>\<open>Popen\<close> or of \<^verbatim>\<open>readline\<close> into the message it returns. \<open>None\<close>: the call never
  returns.
\<close>

definition start_ffmpeg_try ::
  "start_env \<Rightarrow> string list \<Rightarrow> string \<Rightarrow> world
     \<Rightarrow> (world \<times> (exn + string \<times> string \<times> string)) option" where
  "start_ffmpeg_try env command command_str w =
     (let (running, w) =
            (case ffmpeg_process w of
               None \<Rightarrow> (False, w)
             | Some p \<Rightarrow> (p \<in> alive w, record_call (Poll p) w))
      in if running
         then Some (w, Inr (''A stream is already running. Please stop the current stream before starting a new one.'',
                            [], command_str))
         else
           (case popen_raises env of
              Some e \<Rightarrow> Some (w, Inr (''An error occurred: '' @ e, [], command_str))
            | None \<Rightarrow>
                (let p = spawned w;
                     w = record_call (Popen command p)
                           (w\<lparr>ffmpeg_process := Some p, alive := insert p (alive w),
                              spawned := Suc p\<rparr>);
                     output = ''Command executed successfully.''
                 in case read_stderr (stderr_readline env) 0 [] of
                      None \<Rightarrow> None
                    | Some (n, Inl e) \<Rightarrow>
                        Some (w\<lparr>oslog := oslog w @ replicate n (Readline p)\<rparr>,
                              Inr (''An error occurred: '' @ e, [], command_str))
                    | Some (n, Inr logs) \<Rightarrow>
                        (let w = w\<lparr>oslog := oslog w @ replicate n (Readline p) @ [Poll p]\<rparr>
                         in if exited_at_eof env
                            then Some (w\<lparr>alive := alive w - {p}\<rparr>,
                                       Inr (output, join_str [CHR 0x0A] logs, command_str))
                            else Some (w, Inr (output @ [CHR 0x0A] @ ''Streaming in progress...'',
                                               join_str [CHR 0x0A] logs, command_str))))))"

definition start_ffmpeg ::
  "start_env \<Rightarrow> string \<Rightarrow> string \<Rightarrow> string \<Rightarrow> bool \<Rightarrow> string \<Rightarrow> string \<Rightarrow> int \<Rightarrow> string
     \<Rightarrow> world \<Rightarrow> (world \<times> (exn + string \<times> string \<times> string)) option" where
  "start_ffmpeg env video_url logo_url overlay_settings enable_logo resolution rtmp_url fps
       audio_option w =
     (case resolve_hostname (gethostbyname env) rtmp_url of
        Inl e \<Rightarrow> Some (w, Inl e)
      | Inr (resolved_rtmp_url, error) \<Rightarrow>
          (case (case error of None \<Rightarrow> None | Some msg \<Rightarrow> if msg \<noteq> [] then Some msg else None) of
             Some msg \<Rightarrow> Some (w, Inr (msg, [], []))
           | None \<Rightarrow>
               (case resolved_rtmp_url of
                  None \<Rightarrow> Some (w, Inl TypeError)
                | Some resolved \<Rightarrow>
                    (case build_ffmpeg_command video_url logo_url overlay_settings enable_logo
                            resolution resolved fps audio_option of
                       Inl e \<Rightarrow> Some (w, Inl e)
                     | Inr (command, command_str) \<Rightarrow>
                         start_ffmpeg_try env command command_str w))))"

section \<open>\<^verbatim>\<open>stop_ffmpeg\<close>\<close>

text \<open>
  What the environment answers during one call of \<^verbatim>\<open>stop_ffmpeg\<close>: whether
  \<^verbatim>\<open>send_signal\<close> raises, and how \<^verbatim>\<open>wait(timeout=10)\<close> ends: the child has exited, the
  time is over (\<^verbatim>\<open>subprocess.TimeoutExpired\<close>), or another exception. \<^verbatim>\<open>kill()\<close> followed by
  \<^verbatim>\<open>wait()\<close> returns when the child has exited.
\<close>

datatype wait_result = Exited | TimeoutExpired | WaitRaises string

record stop_env =
  send_signal_raises :: "string option"
  wait_timeout :: wait_result

definition stop_ffmpeg :: "stop_env \<Rightarrow> world \<Rightarrow> world \<times> string" where
  "stop_ffmpeg env w =
     (case ffmpeg_process w of
        None \<Rightarrow> (w, ''No stream is running.'')
      | Some p \<Rightarrow>
          (let w = record_call (SendSignal p SIGINT) w
           in case send_signal_raises env of
                Some e \<Rightarrow>
                  (w\<lparr>ffmpeg_process := None\<rparr>, ''An error occurred while stopping the stream: '' @ e)
              | None \<Rightarrow>
                  (let w = record_call (WaitTimeout p 10) w
                   in case wait_timeout env of
                        Exited \<Rightarrow>
                          (w\<lparr>ffmpeg_process := None, alive := alive w - {p}\<rparr>, ''Stream stopped.'')
                      | TimeoutExpired \<Rightarrow>
                          (let w = record_call (Wait p) (record_call (Kill p) w)
                           in (w\<lparr>ffmpeg_process := None, alive := alive w - {p}\<rparr>,
                               ''Stopping the stream took too long. Forcing termination.''))
                      | WaitRaises e \<Rightarrow>
                          (w\<lparr>ffmpeg_process := None\<rparr>,
                           ''An error occurred while stopping the stream: '' @ e))))"

section \<open>\<^verbatim>\<open>check_ffmpeg_protocols\<close>\<close>

text \<open>
  \<^verbatim>\<open>subprocess.run\<close> waits for the program it starts: \<open>Inr out\<close> is the standard output it
  collected, \<open>Inl msg\<close> an exception.
\<close>

definition check_ffmpeg_protocols :: "string + string \<Rightarrow> world \<Rightarrow> world \<times> string" where
  "check_ffmpeg_protocols run_result w =
     (let w = record_call (Run [''ffmpeg'', ''-protocols'']) w
      in case run_result of
           Inr out \<Rightarrow>
             if contains ''rtmps'' out then (w, ''RTMPS is supported by this FFmpeg build.'')
             else (w, ''RTMPS is not supported by this FFmpeg build.'')
         | Inl e \<Rightarrow> (w, ''An error occurred while checking FFmpeg protocols: '' @ e))"

section \<open>The operations of the control panel\<close>

text \<open>
  The three buttons call \<^verbatim>\<open>start_ffmpeg\<close>, \<^verbatim>\<open>stop_ffmpeg\<close> and \<^verbatim>\<open>check_ffmpeg_protocols\<close>;
  \<open>ChildExits p\<close> is the step of the environment in which child \<open>p\<close> exits by itself.
  \<^verbatim>\<open>resolve_hostname\<close> and \<^verbatim>\<open>build_ffmpeg_command\<close> read and write no state.
\<close>

datatype op =
    is_start: StartFfmpeg start_env string string string bool string string int string
  | is_stop: StopFfmpeg stop_env
  | CheckFfmpegProtocols "string + string"
  | ChildExits nat

fun step :: "op \<Rightarrow> world \<Rightarrow> world option" where
  "step (StartFfmpeg env video_url logo_url overlay_settings enable_logo resolution rtmp_url fps
          audio_option) w =
     map_option fst
       (start_ffmpeg env video_url logo_url overlay_settings enable_logo resolution rtmp_url fps
          audio_option w)"
| "step (StopFfmpeg env) w = Some (fst (stop_ffmpeg env w))"
| "step (CheckFfmpegProtocols run_result) w = Some (fst (check_ffmpeg_protocols run_result w))"
| "step (ChildExits p) w = Some (w\<lparr>alive := alive w - {p}\<rparr>)"


section \<open>Facts about the string operations\<close>

lemma split_scan_zero: "split_scan sep 0 cur s = [cur @ s]"
  by (induction s arbitrary: cur) simp_all

lemma split_scan_skip:
  "c0 \<notin> set h \<Longrightarrow> split_scan [c0] k cur (h @ rest) = split_scan [c0] k (cur @ h) rest"
  by (induction h arbitrary: cur) auto

lemma split_hostname:
  assumes "CHR ''/'' \<notin> set h" and "rest = [] \<or> hd rest = CHR ''/''"
  shows "\<exists>t. split_str (h @ rest) ''/'' (- 1) = h # t"
proof (cases rest)
  case Nil
  then show ?thesis using assms(1) split_scan_skip [of "CHR ''/''" h "- 1" "[]" "[]"]
    by (simp add: split_str_def)
next
  case (Cons c cs)
  with assms(2) have "c = CHR ''/''" by simp
  then show ?thesis using Cons assms(1) split_scan_skip [of "CHR ''/''" h "- 1" "[]" rest]
    by (simp add: split_str_def)
qed

lemma split_scheme:
  "split_str (''rtmp://'' @ x) ''://'' 1 = [''rtmp'', x]"
  "split_str (''rtmps://'' @ x) ''://'' 1 = [''rtmps'', x]"
  by (simp_all add: split_str_def split_scan_zero)


lemma prefix_sep: "c0 \<notin> set old \<Longrightarrow> prefix old (x @ c0 # b) = prefix old x"
proof (induction x arbitrary: old)
  case Nil
  then show ?case by (cases old) auto
next
  case (Cons a x)
  then show ?case by (cases old) auto
qed

lemma replace_scan_sep:
  assumes "c0 \<notin> set old" and "old \<noteq> []"
  shows "replace_scan old new (a @ c0 # b) = replace_scan old new a @ c0 # replace_scan old new b"
  using assms
proof (induction old new a rule: replace_scan.induct)
  case (1 old new)
  then show ?case by (cases old) (auto simp: prefix_Cons)
next
  case (2 old new c cs)
  show ?case
  proof (cases "prefix old (c # cs)")
    case True
    then have "length old \<le> length (c # cs)" by (rule prefix_length_le)
    then have len: "length old - 1 \<le> length cs" by simp
    have p: "prefix old (c # cs @ c0 # b)"
      using True prefix_sep [OF 2(3), of "c # cs" b] by simp
    have "replace_scan old new (drop (length old - 1) cs @ c0 # b) =
          replace_scan old new (drop (length old - 1) cs) @ c0 # replace_scan old new b"
      using True 2(3,4) by (rule 2(1))
    then show ?thesis using True p len by simp
  next
    case False
    then have p: "\<not> prefix old (c # cs @ c0 # b)"
      using prefix_sep [OF 2(3), of "c # cs" b] by simp
    have "replace_scan old new (cs @ c0 # b) =
          replace_scan old new cs @ c0 # replace_scan old new b"
      using False 2(3,4) by (rule 2(2))
    then show ?thesis using False p by simp
  qed
qed

lemma replace_scan_hit:
  "old \<noteq> [] \<Longrightarrow> replace_scan old new (old @ s) = new @ replace_scan old new s"
  by (cases old) simp_all

lemma replace_scan_skip:
  "(\<forall>j<length p1. \<not> prefix old (drop j (p1 @ s))) \<Longrightarrow>
   replace_scan old new (p1 @ s) = p1 @ replace_scan old new s"
proof (induction p1)
  case Nil
  then show ?case by simp
next
  case (Cons c p1)
  have "\<not> prefix old (drop 0 ((c # p1) @ s))" using Cons.prems by blast
  then have n0: "\<not> prefix old (c # p1 @ s)" by simp
  have "\<forall>j<length p1. \<not> prefix old (drop j (p1 @ s))"
  proof (intro allI impI)
    fix j assume "j < length p1"
    then have "Suc j < length (c # p1)" by simp
    then have "\<not> prefix old (drop (Suc j) ((c # p1) @ s))" using Cons.prems by blast
    then show "\<not> prefix old (drop j (p1 @ s))" by simp
  qed
  then have "replace_scan old new (p1 @ s) = p1 @ replace_scan old new s" by (rule Cons.IH)
  then show ?case using n0 by simp
qed

section \<open>Facts about \<^verbatim>\<open>resolve_hostname\<close> and \<^verbatim>\<open>build_ffmpeg_command\<close>\<close>

lemma resolve_hostname_rtmp:
  assumes "scheme = ''rtmp://'' \<or> scheme = ''rtmps://''"
    and "CHR ''/'' \<notin> set h" and "rest = [] \<or> hd rest = CHR ''/''"
  shows "resolve_hostname g (scheme @ h @ rest) =
     (case g h of
        Resolved ip \<Rightarrow> Inr (Some (replace_str (scheme @ h @ rest) h ip), None)
      | Gaierror \<Rightarrow> Inr (None, Some (''Failed to resolve hostname: '' @ h))
      | DnsRaises msg \<Rightarrow> Inl (Raised msg))"
proof -
  obtain t where t: "split_str (h @ rest) ''/'' (- 1) = h # t"
    using split_hostname [OF assms(2,3)] by blast
  from assms(1) show ?thesis
  proof
    assume s: "scheme = ''rtmp://''"
    have "split_str (scheme @ h @ rest) ''://'' 1 = [''rtmp'', h @ rest]"
      unfolding s by (rule split_scheme)
    moreover have "startswith (scheme @ h @ rest) ''rtmp://''"
      by (simp add: s startswith_def)
    ultimately show ?thesis
      by (simp add: resolve_hostname_def t split: dns_result.splits)
  next
    assume s: "scheme = ''rtmps://''"
    have "split_str (scheme @ h @ rest) ''://'' 1 = [''rtmps'', h @ rest]"
      unfolding s by (rule split_scheme)
    moreover have "startswith (scheme @ h @ rest) ''rtmps://''"
      by (simp add: s startswith_def)
    ultimately show ?thesis
      by (simp add: resolve_hostname_def t split: dns_result.splits)
  qed
qed

lemma resolve_hostname_other:
  "\<not> startswith url ''rtmp://'' \<Longrightarrow> \<not> startswith url ''rtmps://'' \<Longrightarrow>
   resolve_hostname g url = Inr (Some url, None)"
  by (simp add: resolve_hostname_def)

lemma resolve_hostname_error:
  assumes "resolve_hostname g url = Inr (u, Some msg)"
  shows "u = None \<and> msg \<noteq> []"
  using assms
  by (auto simp: resolve_hostname_def split: if_splits list.splits dns_result.splits)

lemma build_result:
  assumes "build_ffmpeg_command video_url logo_url overlay_settings enable_logo resolution
             rtmp_url fps audio_option = Inr (command, command_str)"
  shows "command_str = join_str '' '' command"
    and "take 5 command = [''ffmpeg'', ''-re'', ''-y'', ''-i'', video_url]"
    and "last command = rtmp_url"
  using assms
  by (auto simp: build_ffmpeg_command_def Let_def split: if_splits list.splits sum.splits)

lemma split_audio:
  "split_str ''1|128k'' ''|'' (- 1) = [''1'', ''128k'']"
  "split_str ''2|128k'' ''|'' (- 1) = [''2'', ''128k'']"
  "split_str ''2|256k'' ''|'' (- 1) = [''2'', ''256k'']"
  by (simp_all add: split_str_def)

lemma build_returns:
  assumes "audio_option \<in> set audio_options"
  shows "\<exists>command command_str.
           build_ffmpeg_command video_url logo_url overlay_settings enable_logo resolution
             rtmp_url fps audio_option = Inr (command, command_str)"
  using assms
  by (auto simp: audio_options_def build_ffmpeg_command_def Let_def split_audio)

section \<open>Facts about \<^verbatim>\<open>start_ffmpeg\<close>\<close>

lemma start_ffmpeg_error:
  assumes "resolve_hostname (gethostbyname env) rtmp_url = Inr (u, Some msg)"
  shows "start_ffmpeg env video_url logo_url overlay_settings enable_logo resolution rtmp_url fps
           audio_option w = Some (w, Inr (msg, [], []))"
proof -
  have "msg \<noteq> []" using resolve_hostname_error [OF assms] by simp
  then show ?thesis by (simp add: start_ffmpeg_def assms)
qed

lemma replace_scan_sep2:
  assumes "c0 \<notin> set old" and "old \<noteq> []"
  shows "replace_scan old new (a @ c0 # c0 # b) =
         replace_scan old new a @ c0 # c0 # replace_scan old new b"
proof -
  have "replace_scan old new (a @ c0 # ([] @ c0 # b)) =
        replace_scan old new a @ c0 # replace_scan old new ([] @ c0 # b)"
    using assms by (rule replace_scan_sep)
  moreover have "replace_scan old new ([] @ c0 # b) =
        replace_scan old new [] @ c0 # replace_scan old new b"
    using assms by (rule replace_scan_sep)
  ultimately show ?thesis by simp
qed

lemma replace_scan_self: "old \<noteq> [] \<Longrightarrow> replace_scan old new old = new"
  using replace_scan_hit [of old new "[]"] by simp

lemma replace_scan_url:
  assumes "CHR ''/'' \<notin> set h" and "h \<noteq> []"
  shows "replace_scan h ip ((pre @ ''//'') @ h @ CHR ''/'' # path) =
         replace_scan h ip (pre @ ''//'') @ ip @ CHR ''/'' # replace_scan h ip path"
proof -
  have a: "replace_scan h ip (pre @ CHR ''/'' # CHR ''/'' # (h @ CHR ''/'' # path)) =
        replace_scan h ip pre @ CHR ''/'' # CHR ''/'' # replace_scan h ip (h @ CHR ''/'' # path)"
    using assms by (rule replace_scan_sep2)
  have b: "replace_scan h ip (h @ CHR ''/'' # path) =
        replace_scan h ip h @ CHR ''/'' # replace_scan h ip path"
    using assms by (rule replace_scan_sep)
  have c: "replace_scan h ip (pre @ CHR ''/'' # CHR ''/'' # []) =
        replace_scan h ip pre @ CHR ''/'' # CHR ''/'' # replace_scan h ip []"
    using assms by (rule replace_scan_sep2)
  show ?thesis using a b c replace_scan_self [OF assms(2), of ip] by simp
qed

lemma replace_str_url:
  assumes "scheme = ''rtmp://'' \<or> scheme = ''rtmps://''" and "CHR ''/'' \<notin> set h" and "h \<noteq> []"
  shows "replace_str (scheme @ h @ CHR ''/'' # path) h ip =
         replace_str scheme h ip @ ip @ CHR ''/'' # replace_str path h ip"
proof -
  from assms(1) obtain pre where pre: "scheme = pre @ ''//''"
    by auto
  show ?thesis
    unfolding pre using replace_scan_url [OF assms(2,3), of ip pre path] assms(3)
    by (simp add: replace_str_def)
qed

lemma replace_str_first:
  assumes "h \<noteq> []" and "\<forall>j<length p1. \<not> prefix h (drop j (p1 @ h @ p2))"
  shows "replace_str (p1 @ h @ p2) h ip = p1 @ ip @ replace_str p2 h ip"
  using assms replace_scan_skip [of p1 h "h @ p2" ip] replace_scan_hit [of h ip p2]
  by (simp add: replace_str_def)

section \<open>Facts about joining and splitting\<close>

lemma split_join:
  assumes "k < 0" and "xs \<noteq> []" and "\<forall>a\<in>set xs. c0 \<notin> set a"
  shows "split_scan [c0] k [] (join_str [c0] xs) = xs"
  using assms
proof (induction xs arbitrary: k)
  case Nil
  then show ?case by simp
next
  case (Cons x xs)
  have x: "c0 \<notin> set x" using Cons.prems(3) by simp
  show ?case
  proof (cases xs)
    case Nil
    have "split_scan [c0] k [] (x @ []) = split_scan [c0] k ([] @ x) []"
      using x by (rule split_scan_skip)
    then show ?thesis using Nil by simp
  next
    case (Cons y ys)
    have "split_scan [c0] k [] (x @ c0 # join_str [c0] xs) =
          split_scan [c0] k ([] @ x) (c0 # join_str [c0] xs)"
      using x by (rule split_scan_skip)
    moreover have "split_scan [c0] (k - 1) [] (join_str [c0] xs) = xs"
      using Cons.prems Cons by (intro Cons.IH) auto
    ultimately show ?thesis using Cons Cons.prems(1) by simp
  qed
qed

lemma split_scan_pieces:
  assumes "k < 0" and "c0 \<notin> set cur"
  shows "\<forall>a\<in>set (split_scan [c0] k cur s). c0 \<notin> set a"
  using assms
proof (induction s arbitrary: k cur)
  case Nil
  then show ?case by simp
next
  case (Cons c s)
  show ?case
  proof (cases "c = c0")
    case True
    have "\<forall>a\<in>set (split_scan [c0] (k - 1) [] s). c0 \<notin> set a"
      using Cons.prems(1) by (intro Cons.IH) auto
    then show ?thesis using True Cons.prems by simp
  next
    case False
    have "\<forall>a\<in>set (split_scan [c0] k (cur @ [c]) s). c0 \<notin> set a"
      using Cons.prems False by (intro Cons.IH) auto
    then show ?thesis using False by simp
  qed
qed

section \<open>Facts about the reading loop\<close>

lemma read_stderr_lines:
  assumes "\<forall>i<length ls. rl (k + i) = Inr (ls ! i) \<and> ls ! i \<noteq> []"
  shows "read_stderr rl k logs = read_stderr rl (k + length ls) (logs @ map strip ls)"
  using assms
proof (induction ls arbitrary: k logs)
  case Nil
  then show ?case by simp
next
  case (Cons x xs)
  have "rl (k + 0) = Inr ((x # xs) ! 0) \<and> (x # xs) ! 0 \<noteq> []"
    using Cons.prems by blast
  then have x: "rl k = Inr x" "x \<noteq> []" by simp_all
  have step: "read_stderr rl k logs = read_stderr rl (Suc k) (logs @ [strip x])"
    using x by (subst read_stderr.simps) simp
  have "\<forall>i<length xs. rl (Suc k + i) = Inr (xs ! i) \<and> xs ! i \<noteq> []"
  proof (intro allI impI)
    fix i assume "i < length xs"
    then have "Suc i < length (x # xs)" by simp
    then have "rl (k + Suc i) = Inr ((x # xs) ! Suc i) \<and> (x # xs) ! Suc i \<noteq> []"
      using Cons.prems by blast
    then show "rl (Suc k + i) = Inr (xs ! i) \<and> xs ! i \<noteq> []" by simp
  qed
  then have "read_stderr rl (Suc k) (logs @ [strip x]) =
             read_stderr rl (Suc k + length xs) ((logs @ [strip x]) @ map strip xs)"
    by (rule Cons.IH)
  then show ?case using step by simp
qed

lemma read_stderr_eof:
  assumes "\<forall>i<length ls. rl i = Inr (ls ! i) \<and> ls ! i \<noteq> []" and "rl (length ls) = Inr []"
  shows "read_stderr rl 0 [] = Some (Suc (length ls), Inr (map strip ls))"
proof -
  have "read_stderr rl 0 [] = read_stderr rl (0 + length ls) ([] @ map strip ls)"
    using assms(1) by (intro read_stderr_lines) simp
  also have "\<dots> = Some (Suc (length ls), Inr (map strip ls))"
    using assms(2) by (subst read_stderr.simps) simp
  finally show ?thesis .
qed

lemma read_stderr_raises:
  assumes "\<forall>i<length ls. rl i = Inr (ls ! i) \<and> ls ! i \<noteq> []" and "rl (length ls) = Inl e"
  shows "read_stderr rl 0 [] = Some (Suc (length ls), Inl e)"
proof -
  have "read_stderr rl 0 [] = read_stderr rl (0 + length ls) ([] @ map strip ls)"
    using assms(1) by (intro read_stderr_lines) simp
  also have "\<dots> = Some (Suc (length ls), Inl e)"
    using assms(2) by (subst read_stderr.simps) simp
  finally show ?thesis .
qed

lemma read_stderr_returns:
  assumes "read_stderr rl k logs = Some r"
  shows "\<exists>n. rl n = Inr [] \<or> (\<exists>e. rl n = Inl e)"
  using assms
proof (rule read_stderr.raw_induct
    [where P = "\<lambda>rl k logs r. \<exists>n. rl n = Inr [] \<or> (\<exists>e. rl n = Inl e)", rotated])
  fix rd :: "(nat \<Rightarrow> string + string) \<Rightarrow> nat \<Rightarrow> string list
       \<Rightarrow> (nat \<times> (string + string list)) option"
    and rl i logs r
  assume IH: "\<And>rl i logs r. rd rl i logs = Some r \<Longrightarrow>
                \<exists>n. rl n = Inr [] \<or> (\<exists>e. rl n = Inl e)"
    and body: "(case rl i of
        Inl e \<Rightarrow> Some (Suc i, Inl e)
      | Inr line \<Rightarrow>
          if line = [] then Some (Suc i, Inr logs)
          else
            (let logs = (if line \<noteq> [] then logs @ [strip line] else logs)
             in if line = [] then Some (Suc i, Inr logs)
                else rd rl (Suc i) logs)) = Some r"
  show "\<exists>n. rl n = Inr [] \<or> (\<exists>e. rl n = Inl e)"
  proof (cases "rl i")
    case (Inl e)
    then show ?thesis by blast
  next
    case (Inr line)
    show ?thesis
    proof (cases "line = []")
      case True
      then show ?thesis using Inr by blast
    next
      case False
      with body Inr have "rd rl (Suc i) (logs @ [strip line]) = Some r" by (simp add: Let_def)
      then show ?thesis by (rule IH)
    qed
  qed
qed

lemma read_stderr_diverges:
  assumes "\<forall>i. \<exists>line. rl i = Inr line \<and> line \<noteq> []"
  shows "read_stderr rl k logs = None"
proof (cases "read_stderr rl k logs")
  case None
  then show ?thesis .
next
  case (Some r)
  then obtain n where "rl n = Inr [] \<or> (\<exists>e. rl n = Inl e)"
    using read_stderr_returns by blast
  moreover obtain line where "rl n = Inr line" "line \<noteq> []" using assms by blast
  ultimately show ?thesis by auto
qed

section \<open>Facts about \<^verbatim>\<open>start_ffmpeg\<close> and the operations\<close>


lemma start_ffmpeg_try_launch:
  assumes "\<forall>p. ffmpeg_process w = Some p \<longrightarrow> p \<notin> alive w" and "popen_raises env = None"
    and "read_stderr (stderr_readline env) 0 [] = Some (n, Inr logs)"
  shows "\<exists>w' out pre.
           start_ffmpeg_try env command command_str w =
             Some (w', Inr (out, join_str [CHR 0x0A] logs, command_str)) \<and>
           oslog w' = pre @ Popen command (spawned w) # replicate n (Readline (spawned w)) @
                        [Poll (spawned w)] \<and>
           ffmpeg_process w' = Some (spawned w)"
  using assms
  by (cases "ffmpeg_process w"; cases "exited_at_eof env")
     (simp_all add: start_ffmpeg_try_def record_call_def Let_def)

lemma start_ffmpeg_try_read_error:
  assumes "\<forall>p. ffmpeg_process w = Some p \<longrightarrow> p \<notin> alive w" and "popen_raises env = None"
    and "read_stderr (stderr_readline env) 0 [] = Some (n, Inl e)"
  shows "\<exists>w' pre.
           start_ffmpeg_try env command command_str w =
             Some (w', Inr (''An error occurred: '' @ e, [], command_str)) \<and>
           oslog w' = pre @ Popen command (spawned w) # replicate n (Readline (spawned w)) \<and>
           ffmpeg_process w' = Some (spawned w) \<and> spawned w \<in> alive w'"
  using assms
  by (cases "ffmpeg_process w")
     (simp_all add: start_ffmpeg_try_def record_call_def Let_def)

lemma start_ffmpeg_try_blocks:
  assumes "\<forall>p. ffmpeg_process w = Some p \<longrightarrow> p \<notin> alive w" and "popen_raises env = None"
    and "read_stderr (stderr_readline env) 0 [] = None"
  shows "start_ffmpeg_try env command command_str w = None"
  using assms
  by (cases "ffmpeg_process w") (simp_all add: start_ffmpeg_try_def record_call_def Let_def)

lemma start_ffmpeg_try_effect:
  assumes "start_ffmpeg_try env command command_str w = Some (w', r)"
  shows "(\<exists>out logs. r = Inr (out, logs, command_str)) \<and>
         (\<forall>argv q. Popen argv q \<in> set (oslog w') \<longrightarrow> Popen argv q \<in> set (oslog w) \<or> argv = command) \<and>
         ((ffmpeg_process w' = ffmpeg_process w \<and> alive w' = alive w \<and> spawned w' = spawned w) \<or>
          ((\<forall>p. ffmpeg_process w = Some p \<longrightarrow> p \<notin> alive w) \<and>
           ffmpeg_process w' = Some (spawned w) \<and> spawned w' = Suc (spawned w) \<and>
           alive w' \<subseteq> insert (spawned w) (alive w)))"
proof (cases "\<exists>p. ffmpeg_process w = Some p \<and> p \<in> alive w")
  case True
  then obtain p where "ffmpeg_process w = Some p" "p \<in> alive w" by blast
  then show ?thesis using assms
    by (auto simp: start_ffmpeg_try_def record_call_def)
next
  case False
  then have idle: "\<forall>p. ffmpeg_process w = Some p \<longrightarrow> p \<notin> alive w" by blast
  show ?thesis
  proof (cases "popen_raises env")
    case (Some e)
    then show ?thesis using assms idle
      by (cases "ffmpeg_process w") (auto simp: start_ffmpeg_try_def record_call_def)
  next
    case None
    show ?thesis
    proof (cases "read_stderr (stderr_readline env) 0 []")
      case None
      with assms idle \<open>popen_raises env = None\<close> show ?thesis
        by (simp add: start_ffmpeg_try_blocks)
    next
      case (Some nl)
      then obtain n res where nl: "read_stderr (stderr_readline env) 0 [] = Some (n, res)"
        by (cases nl) auto
      show ?thesis
      proof (cases res)
        case (Inl e)
        show ?thesis using assms idle \<open>popen_raises env = None\<close> nl Inl
          by (cases "ffmpeg_process w")
             (auto simp: start_ffmpeg_try_def record_call_def Let_def)
      next
        case (Inr logs)
        show ?thesis using assms idle \<open>popen_raises env = None\<close> nl Inr
          by (cases "ffmpeg_process w"; cases "exited_at_eof env")
             (auto simp: start_ffmpeg_try_def record_call_def Let_def)
      qed
    qed
  qed
qed

lemma start_ffmpeg_effect:
  assumes "start_ffmpeg env video_url logo_url overlay_settings enable_logo resolution rtmp_url fps
             audio_option w = Some (w', r)"
  shows "(\<forall>argv q out logs shown.
            r = Inr (out, logs, shown) \<and> Popen argv q \<in> set (oslog w') \<and>
            Popen argv q \<notin> set (oslog w) \<longrightarrow> shown = join_str '' '' argv) \<and>
         ((ffmpeg_process w' = ffmpeg_process w \<and> alive w' = alive w \<and> spawned w' = spawned w) \<or>
          ((\<forall>p. ffmpeg_process w = Some p \<longrightarrow> p \<notin> alive w) \<and>
           ffmpeg_process w' = Some (spawned w) \<and> spawned w' = Suc (spawned w) \<and>
           alive w' \<subseteq> insert (spawned w) (alive w)))"
proof (cases "\<exists>resolved command command_str.
     build_ffmpeg_command video_url logo_url overlay_settings enable_logo resolution resolved fps
       audio_option = Inr (command, command_str) \<and>
     start_ffmpeg_try env command command_str w = Some (w', r)")
  case True
  then obtain resolved command command_str where
    b: "build_ffmpeg_command video_url logo_url overlay_settings enable_logo resolution resolved fps
       audio_option = Inr (command, command_str)"
    and t: "start_ffmpeg_try env command command_str w = Some (w', r)" by blast
  show ?thesis using start_ffmpeg_try_effect [OF t] build_result(1) [OF b] by blast
next
  case False
  then have "w' = w" using assms
    by (auto simp: start_ffmpeg_def split: sum.splits option.splits if_splits prod.splits)
  then show ?thesis by simp
qed






section \<open>A worked launch\<close>

lemma build_example:
  "build_ffmpeg_command ''in.m3u8'' ''logo.png'' ''overlay=W-w-45:37'' False ''480p''
     ''rtmp://203.0.113.7/live'' 0 ''Copy Audio from File'' =
   Inr ([''ffmpeg'', ''-re'', ''-y'', ''-i'', ''in.m3u8'', ''-s'', ''854x480'', ''-c:a'', ''copy'',
         ''-ar'', ''44100'', ''-pix_fmt'', ''yuv420p'', ''-tune'', ''zerolatency'',
         ''-maxrate'', ''2000k'', ''-preset'', ''veryfast'', ''-vcodec'', ''libx264'',
         ''-ab'', ''128k'', ''-vb'', ''660k'', ''-f'', ''flv'', ''rtmp://203.0.113.7/live''],
        ''ffmpeg -re -y -i in.m3u8 -s 854x480 -c:a copy -ar 44100 -pix_fmt yuv420p -tune zerolatency -maxrate 2000k -preset veryfast -vcodec libx264 -ab 128k -vb 660k -f flv rtmp://203.0.113.7/live'')"
  by (simp add: build_ffmpeg_command_def resolution_map_def)

lemma resolve_example:
  "resolve_hostname (\<lambda>h. if h = ''cdn.tv'' then Resolved ''203.0.113.7'' else Gaierror)
     ''rtmp://cdn.tv/live'' = Inr (Some ''rtmp://203.0.113.7/live'', None)"
  by (simp add: resolve_hostname_def startswith_def split_str_def split_scan_zero replace_str_def)

lemma strip_example:
  "strip ''frame=1 fps=30 \<newline>'' = ''frame=1 fps=30''"
  "strip '' video:12kB\<newline>'' = ''video:12kB''"
  by (simp_all add: strip_def isspace_def)

lemma read_example:
  "read_stderr (\<lambda>i. if i = 0 then Inr ''frame=1 fps=30 \<newline>''
                                else if i = 1 then Inr '' video:12kB\<newline>'' else Inr []) 0 [] =
   Some (3, Inr [''frame=1 fps=30'', ''video:12kB''])"
  using read_stderr_eof
    [of "[''frame=1 fps=30 \<newline>'', '' video:12kB\<newline>'']"
        "(\<lambda>i. if i = 0 then Inr ''frame=1 fps=30 \<newline>''
                                else if i = 1 then Inr '' video:12kB\<newline>'' else Inr [])"]
  by (simp add: strip_example less_Suc_eq numeral_2_eq_2 numeral_3_eq_3)

lemma read_error_example:
  "read_stderr (\<lambda>i. if i = 0 then Inr ''frame=1 fps=30 \<newline>''
                                else Inl ''invalid start byte'') 0 [] =
   Some (2, Inl ''invalid start byte'')"
  using read_stderr_raises
    [of "[''frame=1 fps=30 \<newline>'']"
        "(\<lambda>i. if i = 0 then Inr ''frame=1 fps=30 \<newline>''
                                else Inl ''invalid start byte'')" "''invalid start byte''"]
  by (simp add: numeral_2_eq_2)


lemma start_example:
  "start_ffmpeg
     \<lparr>gethostbyname = (\<lambda>h. if h = ''cdn.tv'' then Resolved ''203.0.113.7'' else Gaierror),
       popen_raises = None,
       stderr_readline = (\<lambda>i. if i = 0 then Inr ''frame=1 fps=30 \<newline>''
                                else if i = 1 then Inr '' video:12kB\<newline>'' else Inr []),
       exited_at_eof = True\<rparr>
     ''in.m3u8'' ''logo.png'' ''overlay=W-w-45:37'' False ''480p''
       ''rtmp://cdn.tv/live'' 0 ''Copy Audio from File'' init_world =
   Some (\<lparr>ffmpeg_process = Some 0, alive = {}, spawned = 1,
          oslog = [Popen [''ffmpeg'', ''-re'', ''-y'', ''-i'', ''in.m3u8'', ''-s'', ''854x480'', ''-c:a'', ''copy'',
         ''-ar'', ''44100'', ''-pix_fmt'', ''yuv420p'', ''-tune'', ''zerolatency'',
         ''-maxrate'', ''2000k'', ''-preset'', ''veryfast'', ''-vcodec'', ''libx264'',
         ''-ab'', ''128k'', ''-vb'', ''660k'', ''-f'', ''flv'', ''rtmp://203.0.113.7/live''] 0, Readline 0, Readline 0, Readline 0, Poll 0]\<rparr>,
         Inr (''Command executed successfully.'',
              ''frame=1 fps=30\<newline>video:12kB'',
              ''ffmpeg -re -y -i in.m3u8 -s 854x480 -c:a copy -ar 44100 -pix_fmt yuv420p -tune zerolatency -maxrate 2000k -preset veryfast -vcodec libx264 -ab 128k -vb 660k -f flv rtmp://203.0.113.7/live''))"
  by (simp add: start_ffmpeg_def resolve_example build_example start_ffmpeg_try_def
        init_world_def record_call_def read_example numeral_3_eq_3)

lemma start_error_example:
  "start_ffmpeg
     \<lparr>gethostbyname = (\<lambda>h. if h = ''cdn.tv'' then Resolved ''203.0.113.7'' else Gaierror),
       popen_raises = None,
       stderr_readline = (\<lambda>i. if i = 0 then Inr ''frame=1 fps=30 \<newline>''
                                else Inl ''invalid start byte''),
       exited_at_eof = True\<rparr>
     ''in.m3u8'' ''logo.png'' ''overlay=W-w-45:37'' False ''480p''
       ''rtmp://cdn.tv/live'' 0 ''Copy Audio from File'' init_world =
   Some (\<lparr>ffmpeg_process = Some 0, alive = {0}, spawned = 1,
          oslog = [Popen [''ffmpeg'', ''-re'', ''-y'', ''-i'', ''in.m3u8'', ''-s'', ''854x480'', ''-c:a'', ''copy'',
         ''-ar'', ''44100'', ''-pix_fmt'', ''yuv420p'', ''-tune'', ''zerolatency'',
         ''-maxrate'', ''2000k'', ''-preset'', ''veryfast'', ''-vcodec'', ''libx264'',
         ''-ab'', ''128k'', ''-vb'', ''660k'', ''-f'', ''flv'', ''rtmp://203.0.113.7/live''] 0, Readline 0, Readline 0]\<rparr>,
         Inr (''An error occurred: invalid start byte'', [],
              ''ffmpeg -re -y -i in.m3u8 -s 854x480 -c:a copy -ar 44100 -pix_fmt yuv420p -tune zerolatency -maxrate 2000k -preset veryfast -vcodec libx264 -ab 128k -vb 660k -f flv rtmp://203.0.113.7/live''))"
  by (simp add: start_ffmpeg_def resolve_example build_example start_ffmpeg_try_def
        init_world_def record_call_def read_error_example numeral_2_eq_2)


section \<open>Stopping the stream\<close>

text \<open>
  Claim C1. A call of \<^verbatim>\<open>stop_ffmpeg\<close> with the process handle set first sends \<^verbatim>\<open>SIGINT\<close>
  to the child; when the signal was sent it next waits for the child with a limit of 10
  seconds. When that wait ends because the child has exited, nothing else is done and the
  message is "Stream stopped."; when it ends by the time limit, the child is killed and
  waited for, and the message is the one of the forced termination. The child is killed
  in no other case.
\<close>

theorem stop_ffmpeg_escalation:
  assumes "ffmpeg_process w = Some p"
  shows "take (Suc (length (oslog w))) (oslog (fst (stop_ffmpeg env w))) =
           oslog w @ [SendSignal p SIGINT] \<and>
         (send_signal_raises env = None \<longrightarrow>
            take (length (oslog w) + 2) (oslog (fst (stop_ffmpeg env w))) =
              oslog w @ [SendSignal p SIGINT, WaitTimeout p 10]) \<and>
         (send_signal_raises env = None \<and> wait_timeout env = Exited \<longrightarrow>
            oslog (fst (stop_ffmpeg env w)) = oslog w @ [SendSignal p SIGINT, WaitTimeout p 10] \<and>
            snd (stop_ffmpeg env w) = ''Stream stopped.'') \<and>
         (send_signal_raises env = None \<and> wait_timeout env = TimeoutExpired \<longrightarrow>
            oslog (fst (stop_ffmpeg env w)) =
              oslog w @ [SendSignal p SIGINT, WaitTimeout p 10, Kill p, Wait p] \<and>
            snd (stop_ffmpeg env w) = ''Stopping the stream took too long. Forcing termination.'') \<and>
         (Kill p \<in> set (drop (length (oslog w)) (oslog (fst (stop_ffmpeg env w)))) \<longrightarrow>
            send_signal_raises env = None \<and> wait_timeout env = TimeoutExpired)"
  using assms
  by (cases "send_signal_raises env"; cases "wait_timeout env")
     (simp_all add: stop_ffmpeg_def Let_def record_call_def)

theorem stop_ffmpeg_escalation_witness:
  "ffmpeg_process \<lparr>ffmpeg_process = Some 0, alive = {0}, spawned = 1, oslog = [Popen [''ffmpeg''] 0]\<rparr> = Some 0 \<and>
   oslog (fst (stop_ffmpeg \<lparr>send_signal_raises = None, wait_timeout = TimeoutExpired\<rparr>
      \<lparr>ffmpeg_process = Some 0, alive = {0}, spawned = 1, oslog = [Popen [''ffmpeg''] 0]\<rparr>)) =
     [Popen [''ffmpeg''] 0, SendSignal 0 SIGINT, WaitTimeout 0 10, Kill 0, Wait 0] \<and>
   snd (stop_ffmpeg \<lparr>send_signal_raises = None, wait_timeout = TimeoutExpired\<rparr>
      \<lparr>ffmpeg_process = Some 0, alive = {0}, spawned = 1, oslog = [Popen [''ffmpeg''] 0]\<rparr>) =
     ''Stopping the stream took too long. Forcing termination.'' \<and>
   oslog (fst (stop_ffmpeg \<lparr>send_signal_raises = None, wait_timeout = Exited\<rparr>
      \<lparr>ffmpeg_process = Some 0, alive = {0}, spawned = 1, oslog = [Popen [''ffmpeg''] 0]\<rparr>)) =
     [Popen [''ffmpeg''] 0, SendSignal 0 SIGINT, WaitTimeout 0 10] \<and>
   snd (stop_ffmpeg \<lparr>send_signal_raises = None, wait_timeout = Exited\<rparr>
      \<lparr>ffmpeg_process = Some 0, alive = {0}, spawned = 1, oslog = [Popen [''ffmpeg''] 0]\<rparr>) =
     ''Stream stopped.''"
  using stop_ffmpeg_escalation
    [of "\<lparr>ffmpeg_process = Some 0, alive = {0}, spawned = 1, oslog = [Popen [''ffmpeg''] 0]\<rparr>" 0
        "\<lparr>send_signal_raises = None, wait_timeout = TimeoutExpired\<rparr>"]
    stop_ffmpeg_escalation
    [of "\<lparr>ffmpeg_process = Some 0, alive = {0}, spawned = 1, oslog = [Popen [''ffmpeg''] 0]\<rparr>" 0
        "\<lparr>send_signal_raises = None, wait_timeout = Exited\<rparr>"]
  by simp

text \<open>
  Claim C9. After a call of \<^verbatim>\<open>stop_ffmpeg\<close> with the process handle set the handle is
  \<^verbatim>\<open>None\<close>, whatever the signal and the wait did (an exception included), and a second call
  right after it answers "No stream is running." and leaves the state as it is.
\<close>

theorem stop_ffmpeg_clears_handle:
  assumes "ffmpeg_process w = Some p"
  shows "ffmpeg_process (fst (stop_ffmpeg env w)) = None \<and>
         stop_ffmpeg env' (fst (stop_ffmpeg env w)) =
           (fst (stop_ffmpeg env w), ''No stream is running.'')"
proof -
  have a: "ffmpeg_process (fst (stop_ffmpeg env w)) = None"
    using assms
    by (simp add: stop_ffmpeg_def Let_def record_call_def split: option.splits wait_result.splits)
  then show ?thesis by (simp add: stop_ffmpeg_def)
qed

theorem stop_ffmpeg_clears_handle_witness:
  "ffmpeg_process \<lparr>ffmpeg_process = Some 0, alive = {0}, spawned = 1, oslog = []\<rparr> = Some 0 \<and>
   ffmpeg_process
     (fst (stop_ffmpeg \<lparr>send_signal_raises = Some ''denied'', wait_timeout = Exited\<rparr>
        \<lparr>ffmpeg_process = Some 0, alive = {0}, spawned = 1, oslog = []\<rparr>)) = None \<and>
   snd (stop_ffmpeg \<lparr>send_signal_raises = None, wait_timeout = Exited\<rparr>
     (fst (stop_ffmpeg \<lparr>send_signal_raises = Some ''denied'', wait_timeout = Exited\<rparr>
        \<lparr>ffmpeg_process = Some 0, alive = {0}, spawned = 1, oslog = []\<rparr>))) =
     ''No stream is running.''"
  using stop_ffmpeg_clears_handle
    [of "\<lparr>ffmpeg_process = Some 0, alive = {0}, spawned = 1, oslog = []\<rparr>" 0
        "\<lparr>send_signal_raises = Some ''denied'', wait_timeout = Exited\<rparr>"
        "\<lparr>send_signal_raises = None, wait_timeout = Exited\<rparr>"]
  by simp

section \<open>Failure of the hostname resolution\<close>

text \<open>
  Claim C8. When \<^verbatim>\<open>resolve_hostname\<close> reports an error for the destination address,
  \<^verbatim>\<open>start_ffmpeg\<close> returns that error with empty logs and an empty command string, and
  the state is the one before the call: the handle is unchanged, no command was built and
  no child was spawned.
\<close>

theorem start_ffmpeg_resolution_failure:
  assumes "resolve_hostname (gethostbyname env) rtmp_url = Inr (u, Some msg)"
  shows "u = None \<and>
         start_ffmpeg env video_url logo_url overlay_settings enable_logo resolution rtmp_url fps
           audio_option w = Some (w, Inr (msg, [], []))"
  using resolve_hostname_error [OF assms] start_ffmpeg_error [OF assms] by simp

theorem start_ffmpeg_resolution_failure_witness:
  "resolve_hostname (\<lambda>h. Gaierror) ''rtmp://nohost.invalid/live'' =
     Inr (None, Some ''Failed to resolve hostname: nohost.invalid'') \<and>
   start_ffmpeg
     \<lparr>gethostbyname = (\<lambda>h. Gaierror), popen_raises = None, stderr_readline = (\<lambda>i. Inr []),
      exited_at_eof = True\<rparr>
     ''in.m3u8'' ''logo.png'' ''overlay=W-w-45:37'' True ''720p'' ''rtmp://nohost.invalid/live'' 30
     ''Copy Audio from File'' init_world =
   Some (init_world, Inr (''Failed to resolve hostname: nohost.invalid'', [], []))"
proof -
  have r: "resolve_hostname (\<lambda>h. Gaierror) ''rtmp://nohost.invalid/live'' =
     Inr (None, Some ''Failed to resolve hostname: nohost.invalid'')"
    by (simp add: resolve_hostname_def startswith_def split_str_def split_scan_zero)
  show ?thesis
    using r start_ffmpeg_resolution_failure
      [of "\<lparr>gethostbyname = (\<lambda>h. Gaierror), popen_raises = None, stderr_readline = (\<lambda>i. Inr []),
            exited_at_eof = True\<rparr>"
          "''rtmp://nohost.invalid/live''" None "''Failed to resolve hostname: nohost.invalid''"]
    by simp
qed

section \<open>Resolution of the destination address\<close>

text \<open>
  Claim C10. For an address \<open>rtmp://h/path\<close> or \<open>rtmps://h/path\<close> whose host name \<open>h\<close>
  resolves to \<open>ip\<close>, the address returned is rewritten as a whole by
  \<^verbatim>\<open>url.replace(hostname, ip)\<close>: the host name in the authority becomes \<open>ip\<close>, and the scheme
  and the path are themselves the result of replacing \<open>h\<close> by \<open>ip\<close> in them. In particular
  an occurrence of \<open>h\<close> in the path (the first one, at offset \<open>length p1\<close>) is rewritten as
  the authority is, and the replacement goes on behind it.
\<close>

theorem resolve_hostname_rewrites_every_occurrence:
  assumes "scheme = ''rtmp://'' \<or> scheme = ''rtmps://''"
    and "CHR ''/'' \<notin> set h" and "h \<noteq> []" and "g h = Resolved ip"
  shows "resolve_hostname g (scheme @ h @ CHR ''/'' # path) =
           Inr (Some (replace_str scheme h ip @ ip @ CHR ''/'' # replace_str path h ip), None) \<and>
         ((\<forall>j<length p1. \<not> prefix h (drop j (p1 @ h @ p2))) \<longrightarrow>
            resolve_hostname g (scheme @ h @ CHR ''/'' # p1 @ h @ p2) =
              Inr (Some (replace_str scheme h ip @ ip @ CHR ''/'' # p1 @ ip @ replace_str p2 h ip),
                   None))"
proof -
  have r: "resolve_hostname g (scheme @ h @ CHR ''/'' # q) =
           Inr (Some (replace_str scheme h ip @ ip @ CHR ''/'' # replace_str q h ip), None)" for q
    using resolve_hostname_rtmp [OF assms(1,2), of "CHR ''/'' # q" g]
      replace_str_url [OF assms(1,2,3), of q ip] assms(4)
    by simp
  show ?thesis
    using r [of path] r [of "p1 @ h @ p2"] replace_str_first [OF assms(3), of p1 p2 ip]
    by simp
qed

theorem resolve_hostname_rewrites_every_occurrence_witness:
  "resolve_hostname (\<lambda>h. if h = ''cdn.tv'' then Resolved ''10.0.0.7'' else Gaierror)
     ''rtmp://cdn.tv/live/cdn.tv/key'' =
   Inr (Some ''rtmp://10.0.0.7/live/10.0.0.7/key'', None)"
  using resolve_hostname_rewrites_every_occurrence
    [of "''rtmp://''" "''cdn.tv''" "\<lambda>h. if h = ''cdn.tv'' then Resolved ''10.0.0.7'' else Gaierror"
        "''10.0.0.7''" "''live/cdn.tv/key''" "''live/''" "''/key''"]
  by (simp add: replace_str_def less_Suc_eq)

text \<open>
  Claim C4, as the code has it. An address that begins with neither \<open>rtmp://\<close> nor
  \<open>rtmps://\<close> is returned as it is, with no error. An address that begins with one of
  them is \<open>scheme @ a @ rest\<close>, where \<open>a\<close> is all the text up to the first slash or to the
  end (the authority: a port or user information in it is part of \<open>a\<close>), and it is \<open>a\<close>
  that is given to the resolver. When the resolver returns \<open>ip\<close>, the result is the address
  with \<open>a\<close> replaced by \<open>ip\<close> and no error; when it raises \<^verbatim>\<open>socket.gaierror\<close>, the result
  is no address and the message "Failed to resolve hostname: a", and \<^verbatim>\<open>start_ffmpeg\<close>
  returns that message with the state unchanged (no child is spawned); when it raises
  anything else, the exception leaves \<^verbatim>\<open>resolve_hostname\<close> and \<^verbatim>\<open>start_ffmpeg\<close>, again with
  the state unchanged.
\<close>

theorem resolve_hostname_outcomes:
  "(\<not> startswith url ''rtmp://'' \<and> \<not> startswith url ''rtmps://'' \<longrightarrow>
      resolve_hostname (gethostbyname env) url = Inr (Some url, None)) \<and>
   ((scheme = ''rtmp://'' \<or> scheme = ''rtmps://'') \<and> CHR ''/'' \<notin> set a \<and>
    (rest = [] \<or> hd rest = CHR ''/'') \<longrightarrow>
      (\<forall>ip. gethostbyname env a = Resolved ip \<longrightarrow>
         resolve_hostname (gethostbyname env) (scheme @ a @ rest) =
           Inr (Some (replace_str (scheme @ a @ rest) a ip), None)) \<and>
      (gethostbyname env a = Gaierror \<longrightarrow>
         resolve_hostname (gethostbyname env) (scheme @ a @ rest) =
           Inr (None, Some (''Failed to resolve hostname: '' @ a)) \<and>
         start_ffmpeg env video_url logo_url overlay_settings enable_logo resolution
           (scheme @ a @ rest) fps audio_option w =
           Some (w, Inr (''Failed to resolve hostname: '' @ a, [], []))) \<and>
      (\<forall>msg. gethostbyname env a = DnsRaises msg \<longrightarrow>
         resolve_hostname (gethostbyname env) (scheme @ a @ rest) = Inl (Raised msg) \<and>
         start_ffmpeg env video_url logo_url overlay_settings enable_logo resolution
           (scheme @ a @ rest) fps audio_option w = Some (w, Inl (Raised msg))))"
proof (intro conjI impI allI)
  assume "\<not> startswith url ''rtmp://'' \<and> \<not> startswith url ''rtmps://''"
  then show "resolve_hostname (gethostbyname env) url = Inr (Some url, None)"
    by (simp add: resolve_hostname_other)
next
  fix ip
  assume a: "(scheme = ''rtmp://'' \<or> scheme = ''rtmps://'') \<and> CHR ''/'' \<notin> set a \<and>
    (rest = [] \<or> hd rest = CHR ''/'')" and ip: "gethostbyname env a = Resolved ip"
  show "resolve_hostname (gethostbyname env) (scheme @ a @ rest) =
           Inr (Some (replace_str (scheme @ a @ rest) a ip), None)"
    using a ip resolve_hostname_rtmp [of scheme a rest "gethostbyname env"] by simp
next
  assume a: "(scheme = ''rtmp://'' \<or> scheme = ''rtmps://'') \<and> CHR ''/'' \<notin> set a \<and>
    (rest = [] \<or> hd rest = CHR ''/'')" and n: "gethostbyname env a = Gaierror"
  show r: "resolve_hostname (gethostbyname env) (scheme @ a @ rest) =
           Inr (None, Some (''Failed to resolve hostname: '' @ a))"
    using a n resolve_hostname_rtmp [of scheme a rest "gethostbyname env"] by simp
  show "start_ffmpeg env video_url logo_url overlay_settings enable_logo resolution
           (scheme @ a @ rest) fps audio_option w =
           Some (w, Inr (''Failed to resolve hostname: '' @ a, [], []))"
    using r by (rule start_ffmpeg_error)
next
  fix msg
  assume a: "(scheme = ''rtmp://'' \<or> scheme = ''rtmps://'') \<and> CHR ''/'' \<notin> set a \<and>
    (rest = [] \<or> hd rest = CHR ''/'')" and n: "gethostbyname env a = DnsRaises msg"
  show r: "resolve_hostname (gethostbyname env) (scheme @ a @ rest) = Inl (Raised msg)"
    using a n resolve_hostname_rtmp [of scheme a rest "gethostbyname env"] by simp
  show "start_ffmpeg env video_url logo_url overlay_settings enable_logo resolution
           (scheme @ a @ rest) fps audio_option w = Some (w, Inl (Raised msg))"
    using r by (simp add: start_ffmpeg_def)
qed

theorem resolve_hostname_outcomes_witness:
  "resolve_hostname (\<lambda>h. if h = ''stream.example.com'' then Resolved ''203.0.113.7''
                         else if h = ''a..b'' then DnsRaises ''label empty or too long'' else Gaierror)
     ''rtmps://stream.example.com/live/key'' = Inr (Some ''rtmps://203.0.113.7/live/key'', None) \<and>
   resolve_hostname (\<lambda>h. if h = ''stream.example.com'' then Resolved ''203.0.113.7''
                         else if h = ''a..b'' then DnsRaises ''label empty or too long'' else Gaierror)
     ''rtmp://nohost.invalid/app'' =
     Inr (None, Some ''Failed to resolve hostname: nohost.invalid'') \<and>
   start_ffmpeg
     \<lparr>gethostbyname = (\<lambda>h. if h = ''stream.example.com'' then Resolved ''203.0.113.7''
                         else if h = ''a..b'' then DnsRaises ''label empty or too long'' else Gaierror),
       popen_raises = None,
       stderr_readline = (\<lambda>i. Inr []),
       exited_at_eof = True\<rparr>
     ''in.m3u8'' ''logo.png'' ''overlay=W-w-45:37'' True ''720p'' ''rtmp://nohost.invalid/app'' 30
     ''Copy Audio from File'' init_world =
     Some (init_world, Inr (''Failed to resolve hostname: nohost.invalid'', [], [])) \<and>
   start_ffmpeg
     \<lparr>gethostbyname = (\<lambda>h. if h = ''stream.example.com'' then Resolved ''203.0.113.7''
                         else if h = ''a..b'' then DnsRaises ''label empty or too long'' else Gaierror),
       popen_raises = None,
       stderr_readline = (\<lambda>i. Inr []),
       exited_at_eof = True\<rparr>
     ''in.m3u8'' ''logo.png'' ''overlay=W-w-45:37'' True ''720p'' ''rtmp://a..b/app'' 30
     ''Copy Audio from File'' init_world =
     Some (init_world, Inl (Raised ''label empty or too long'')) \<and>
   resolve_hostname (\<lambda>h. if h = ''stream.example.com'' then Resolved ''203.0.113.7''
                         else if h = ''a..b'' then DnsRaises ''label empty or too long'' else Gaierror)
     ''out.flv'' = Inr (Some ''out.flv'', None)"
  using resolve_hostname_outcomes
    [where env = "\<lparr>gethostbyname = (\<lambda>h. if h = ''stream.example.com'' then Resolved ''203.0.113.7''
                         else if h = ''a..b'' then DnsRaises ''label empty or too long'' else Gaierror),
       popen_raises = None,
       stderr_readline = (\<lambda>i. Inr []),
       exited_at_eof = True\<rparr>"
      and url = "''out.flv''" and scheme = "''rtmps://''" and a = "''stream.example.com''"
      and rest = "''/live/key''"]
    resolve_hostname_outcomes
    [where env = "\<lparr>gethostbyname = (\<lambda>h. if h = ''stream.example.com'' then Resolved ''203.0.113.7''
                         else if h = ''a..b'' then DnsRaises ''label empty or too long'' else Gaierror),
       popen_raises = None,
       stderr_readline = (\<lambda>i. Inr []),
       exited_at_eof = True\<rparr>"
      and url = "''out.flv''" and scheme = "''rtmp://''" and a = "''nohost.invalid''"
      and rest = "''/app''" and w = init_world and video_url = "''in.m3u8''"
      and logo_url = "''logo.png''" and overlay_settings = "''overlay=W-w-45:37''"
      and enable_logo = True and resolution = "''720p''" and fps = 30
      and audio_option = "''Copy Audio from File''"]
    resolve_hostname_outcomes
    [where env = "\<lparr>gethostbyname = (\<lambda>h. if h = ''stream.example.com'' then Resolved ''203.0.113.7''
                         else if h = ''a..b'' then DnsRaises ''label empty or too long'' else Gaierror),
       popen_raises = None,
       stderr_readline = (\<lambda>i. Inr []),
       exited_at_eof = True\<rparr>"
      and url = "''out.flv''" and scheme = "''rtmp://''" and a = "''a..b''"
      and rest = "''/app''" and w = init_world and video_url = "''in.m3u8''"
      and logo_url = "''logo.png''" and overlay_settings = "''overlay=W-w-45:37''"
      and enable_logo = True and resolution = "''720p''" and fps = 30
      and audio_option = "''Copy Audio from File''"]
  by (simp add: replace_str_def startswith_def)

text \<open>
  Claim C4 as the specification words it fails twice. The host \<open>a.tv\<close> resolves, but for the address
  \<open>rtmp://a.tv:1935/live\<close> the resolver is asked for \<open>a.tv:1935\<close> and the resolution is
  reported as failed; and for a name the resolver refuses with an exception other than
  \<^verbatim>\<open>socket.gaierror\<close> the function returns neither an address nor a message.
\<close>

theorem resolve_hostname_counterexample:
  "resolve_hostname (\<lambda>h. if h = ''a.tv'' then Resolved ''10.0.0.7'' else Gaierror)
     ''rtmp://a.tv:1935/live'' =
     Inr (None, Some ''Failed to resolve hostname: a.tv:1935'') \<and>
   resolve_hostname
     (\<lambda>h. if h = ''a..b'' then DnsRaises ''label empty or too long'' else Gaierror)
     ''rtmp://a..b/live'' = Inl (Raised ''label empty or too long'')"
  by (simp add: resolve_hostname_def startswith_def split_str_def split_scan_zero)

section \<open>The command line\<close>

text \<open>
  Claim C5. Whenever \<^verbatim>\<open>build_ffmpeg_command\<close> returns, the argument list it returns is one
  invocation of the program \<open>ffmpeg\<close> (the program name is the head of the list), the
  source address is the argument that follows the first \<open>-i\<close>, and the destination address
  it was given is the last argument. For every audio option the form offers it does
  return.
\<close>

theorem build_ffmpeg_command_shape:
  "(\<forall>command command_str.
      build_ffmpeg_command video_url logo_url overlay_settings enable_logo resolution rtmp_url
        fps audio_option = Inr (command, command_str) \<longrightarrow>
      hd command = ''ffmpeg'' \<and> command ! 3 = ''-i'' \<and> command ! 4 = video_url \<and>
      last command = rtmp_url) \<and>
   (audio_option \<in> set audio_options \<longrightarrow>
      (\<exists>command command_str.
         build_ffmpeg_command video_url logo_url overlay_settings enable_logo resolution rtmp_url
           fps audio_option = Inr (command, command_str)))"
proof (intro conjI allI impI)
  fix command command_str
  assume b: "build_ffmpeg_command video_url logo_url overlay_settings enable_logo resolution
     rtmp_url fps audio_option = Inr (command, command_str)"
  have t: "take 5 command = [''ffmpeg'', ''-re'', ''-y'', ''-i'', video_url]"
    using b by (rule build_result(2))
  then have "length (take 5 command) = 5" by simp
  then have l: "command \<noteq> []" by auto
  have "hd command = hd (take 5 command)" using l by (cases command) simp_all
  then show "hd command = ''ffmpeg''" using t by simp
  have "command ! 3 = take 5 command ! 3" by simp
  then show "command ! 3 = ''-i''" using t by simp
  have "command ! 4 = take 5 command ! 4" by simp
  then show "command ! 4 = video_url" using t by simp
  show "last command = rtmp_url" using b by (rule build_result(3))
next
  assume "audio_option \<in> set audio_options"
  then show "\<exists>command command_str.
         build_ffmpeg_command video_url logo_url overlay_settings enable_logo resolution rtmp_url
           fps audio_option = Inr (command, command_str)"
    by (rule build_returns)
qed

theorem build_ffmpeg_command_shape_witness:
  "''2|128k'' \<in> set audio_options \<and>
   (\<exists>command command_str.
      build_ffmpeg_command ''https://example.com/master.m3u8'' ''https://example.com/logo.png''
        ''overlay=W-w-45:37'' True ''720p'' ''rtmps://203.0.113.7/live/key'' 30 ''2|128k'' =
        Inr (command, command_str) \<and>
      hd command = ''ffmpeg'' \<and> command ! 3 = ''-i'' \<and>
      command ! 4 = ''https://example.com/master.m3u8'' \<and>
      last command = ''rtmps://203.0.113.7/live/key'')"
  using build_ffmpeg_command_shape
    [of "''https://example.com/master.m3u8''" "''https://example.com/logo.png''"
        "''overlay=W-w-45:37''" True "''720p''" "''rtmps://203.0.113.7/live/key''" 30 "''2|128k''"]
  by (auto simp: audio_options_def)

text \<open>
  Claim C7, as the code has it. The string \<^verbatim>\<open>build_ffmpeg_command\<close> returns is the argument
  list it returns, joined with single spaces and without quoting; so the argument list is
  read back from the string (by cutting it at the spaces) exactly when no argument
  contains a space. When \<^verbatim>\<open>start_ffmpeg\<close> spawns a child, the command string it returns
  for display is the space-joined argument list that was given to \<^verbatim>\<open>subprocess.Popen\<close>.
\<close>

theorem command_str_rendering:
  "(\<forall>command command_str.
      build_ffmpeg_command video_url logo_url overlay_settings enable_logo resolution rtmp_url
        fps audio_option = Inr (command, command_str) \<longrightarrow>
      command_str = join_str '' '' command \<and>
      (split_str command_str '' '' (- 1) = command \<longleftrightarrow>
         (\<forall>a\<in>set command. CHR '' '' \<notin> set a))) \<and>
   (\<forall>w' out logs shown argv p.
      start_ffmpeg env video_url logo_url overlay_settings enable_logo resolution rtmp_url fps
        audio_option w = Some (w', Inr (out, logs, shown)) \<and>
      Popen argv p \<in> set (oslog w') \<and> Popen argv p \<notin> set (oslog w) \<longrightarrow>
      shown = join_str '' '' argv)"
proof (intro conjI allI impI)
  fix command command_str
  assume b: "build_ffmpeg_command video_url logo_url overlay_settings enable_logo resolution
     rtmp_url fps audio_option = Inr (command, command_str)"
  show j: "command_str = join_str '' '' command" using b by (rule build_result(1))
  have "take 5 command = [''ffmpeg'', ''-re'', ''-y'', ''-i'', video_url]"
    using b by (rule build_result(2))
  then have "length (take 5 command) = 5" by simp
  then have ne: "command \<noteq> []" by auto
  show "split_str command_str '' '' (- 1) = command \<longleftrightarrow>
         (\<forall>a\<in>set command. CHR '' '' \<notin> set a)"
  proof
    assume s: "split_str command_str '' '' (- 1) = command"
    have "\<forall>a\<in>set (split_scan '' '' (- 1) [] command_str). CHR '' '' \<notin> set a"
      by (rule split_scan_pieces) simp_all
    then show "\<forall>a\<in>set command. CHR '' '' \<notin> set a"
      using s by (simp add: split_str_def)
  next
    assume "\<forall>a\<in>set command. CHR '' '' \<notin> set a"
    then have "split_scan '' '' (- 1) [] (join_str '' '' command) = command"
      using ne by (intro split_join) simp_all
    then show "split_str command_str '' '' (- 1) = command"
      using j by (simp add: split_str_def)
  qed
next
  fix w' out logs shown argv p
  assume a: "start_ffmpeg env video_url logo_url overlay_settings enable_logo resolution rtmp_url
        fps audio_option w = Some (w', Inr (out, logs, shown)) \<and>
      Popen argv p \<in> set (oslog w') \<and> Popen argv p \<notin> set (oslog w)"
  then have s: "start_ffmpeg env video_url logo_url overlay_settings enable_logo resolution
        rtmp_url fps audio_option w = Some (w', Inr (out, logs, shown))" by simp
  show "shown = join_str '' '' argv"
    using start_ffmpeg_effect [OF s] a by blast
qed

theorem command_str_rendering_witness:
  "build_ffmpeg_command ''in.m3u8'' ''logo.png'' ''overlay=W-w-45:37'' False ''480p''
       ''rtmp://203.0.113.7/live'' 0 ''Copy Audio from File'' =
     Inr ([''ffmpeg'', ''-re'', ''-y'', ''-i'', ''in.m3u8'', ''-s'', ''854x480'', ''-c:a'', ''copy'',
         ''-ar'', ''44100'', ''-pix_fmt'', ''yuv420p'', ''-tune'', ''zerolatency'',
         ''-maxrate'', ''2000k'', ''-preset'', ''veryfast'', ''-vcodec'', ''libx264'',
         ''-ab'', ''128k'', ''-vb'', ''660k'', ''-f'', ''flv'', ''rtmp://203.0.113.7/live''],
          ''ffmpeg -re -y -i in.m3u8 -s 854x480 -c:a copy -ar 44100 -pix_fmt yuv420p -tune zerolatency -maxrate 2000k -preset veryfast -vcodec libx264 -ab 128k -vb 660k -f flv rtmp://203.0.113.7/live'') \<and>
   split_str ''ffmpeg -re -y -i in.m3u8 -s 854x480 -c:a copy -ar 44100 -pix_fmt yuv420p -tune zerolatency -maxrate 2000k -preset veryfast -vcodec libx264 -ab 128k -vb 660k -f flv rtmp://203.0.113.7/live''
     '' '' (- 1) =
     [''ffmpeg'', ''-re'', ''-y'', ''-i'', ''in.m3u8'', ''-s'', ''854x480'', ''-c:a'', ''copy'',
         ''-ar'', ''44100'', ''-pix_fmt'', ''yuv420p'', ''-tune'', ''zerolatency'',
         ''-maxrate'', ''2000k'', ''-preset'', ''veryfast'', ''-vcodec'', ''libx264'',
         ''-ab'', ''128k'', ''-vb'', ''660k'', ''-f'', ''flv'', ''rtmp://203.0.113.7/live''] \<and>
   start_ffmpeg
     \<lparr>gethostbyname = (\<lambda>h. if h = ''cdn.tv'' then Resolved ''203.0.113.7'' else Gaierror),
       popen_raises = None,
       stderr_readline = (\<lambda>i. if i = 0 then Inr ''frame=1 fps=30 \<newline>''
                                else if i = 1 then Inr '' video:12kB\<newline>'' else Inr []),
       exited_at_eof = True\<rparr>
     ''in.m3u8'' ''logo.png'' ''overlay=W-w-45:37'' False ''480p''
       ''rtmp://cdn.tv/live'' 0 ''Copy Audio from File'' init_world =
   Some (\<lparr>ffmpeg_process = Some 0, alive = {}, spawned = 1,
          oslog = [Popen [''ffmpeg'', ''-re'', ''-y'', ''-i'', ''in.m3u8'', ''-s'', ''854x480'', ''-c:a'', ''copy'',
         ''-ar'', ''44100'', ''-pix_fmt'', ''yuv420p'', ''-tune'', ''zerolatency'',
         ''-maxrate'', ''2000k'', ''-preset'', ''veryfast'', ''-vcodec'', ''libx264'',
         ''-ab'', ''128k'', ''-vb'', ''660k'', ''-f'', ''flv'', ''rtmp://203.0.113.7/live''] 0, Readline 0, Readline 0, Readline 0, Poll 0]\<rparr>,
         Inr (''Command executed successfully.'',
              ''frame=1 fps=30\<newline>video:12kB'',
              ''ffmpeg -re -y -i in.m3u8 -s 854x480 -c:a copy -ar 44100 -pix_fmt yuv420p -tune zerolatency -maxrate 2000k -preset veryfast -vcodec libx264 -ab 128k -vb 660k -f flv rtmp://203.0.113.7/live'')) \<and>
   ''ffmpeg -re -y -i in.m3u8 -s 854x480 -c:a copy -ar 44100 -pix_fmt yuv420p -tune zerolatency -maxrate 2000k -preset veryfast -vcodec libx264 -ab 128k -vb 660k -f flv rtmp://203.0.113.7/live'' =
     join_str '' '' [''ffmpeg'', ''-re'', ''-y'', ''-i'', ''in.m3u8'', ''-s'', ''854x480'', ''-c:a'', ''copy'',
         ''-ar'', ''44100'', ''-pix_fmt'', ''yuv420p'', ''-tune'', ''zerolatency'',
         ''-maxrate'', ''2000k'', ''-preset'', ''veryfast'', ''-vcodec'', ''libx264'',
         ''-ab'', ''128k'', ''-vb'', ''660k'', ''-f'', ''flv'', ''rtmp://203.0.113.7/live'']"
  using build_example start_example
    command_str_rendering
      [where env = "\<lparr>gethostbyname = (\<lambda>h. if h = ''cdn.tv'' then Resolved ''203.0.113.7'' else Gaierror),
       popen_raises = None,
       stderr_readline = (\<lambda>i. if i = 0 then Inr ''frame=1 fps=30 \<newline>''
                                else if i = 1 then Inr '' video:12kB\<newline>'' else Inr []),
       exited_at_eof = True\<rparr>"
         and video_url = "''in.m3u8''" and logo_url = "''logo.png''"
         and overlay_settings = "''overlay=W-w-45:37''" and enable_logo = False
         and resolution = "''480p''" and rtmp_url = "''rtmp://cdn.tv/live''" and fps = 0
         and audio_option = "''Copy Audio from File''" and w = init_world]
    command_str_rendering
      [where video_url = "''in.m3u8''" and logo_url = "''logo.png''"
         and overlay_settings = "''overlay=W-w-45:37''" and enable_logo = False
         and resolution = "''480p''" and rtmp_url = "''rtmp://203.0.113.7/live''" and fps = 0
         and audio_option = "''Copy Audio from File''"]
  by (simp add: init_world_def)

text \<open>
  Claim C7 as the specification words it calls the string a faithful rendering of the argument vector.
  With a space in the source address, the string displayed is also the rendering of
  another argument vector, in which the address is two arguments.
\<close>

theorem command_str_counterexample:
  "build_ffmpeg_command ''my video.mp4'' ''logo.png'' ''overlay=W-w-45:37'' False ''480p''
       ''rtmp://203.0.113.7/live'' 0 ''Copy Audio from File'' =
     Inr ([''ffmpeg'', ''-re'', ''-y'', ''-i'', ''my video.mp4'', ''-s'', ''854x480'', ''-c:a'', ''copy'',
         ''-ar'', ''44100'', ''-pix_fmt'', ''yuv420p'', ''-tune'', ''zerolatency'',
         ''-maxrate'', ''2000k'', ''-preset'', ''veryfast'', ''-vcodec'', ''libx264'',
         ''-ab'', ''128k'', ''-vb'', ''660k'', ''-f'', ''flv'', ''rtmp://203.0.113.7/live''],
          ''ffmpeg -re -y -i my video.mp4 -s 854x480 -c:a copy -ar 44100 -pix_fmt yuv420p -tune zerolatency -maxrate 2000k -preset veryfast -vcodec libx264 -ab 128k -vb 660k -f flv rtmp://203.0.113.7/live'') \<and>
   join_str '' '' [''ffmpeg'', ''-re'', ''-y'', ''-i'', ''my'', ''video.mp4'', ''-s'', ''854x480'', ''-c:a'', ''copy'',
         ''-ar'', ''44100'', ''-pix_fmt'', ''yuv420p'', ''-tune'', ''zerolatency'',
         ''-maxrate'', ''2000k'', ''-preset'', ''veryfast'', ''-vcodec'', ''libx264'',
         ''-ab'', ''128k'', ''-vb'', ''660k'', ''-f'', ''flv'', ''rtmp://203.0.113.7/live''] =
     ''ffmpeg -re -y -i my video.mp4 -s 854x480 -c:a copy -ar 44100 -pix_fmt yuv420p -tune zerolatency -maxrate 2000k -preset veryfast -vcodec libx264 -ab 128k -vb 660k -f flv rtmp://203.0.113.7/live'' \<and>
   [''ffmpeg'', ''-re'', ''-y'', ''-i'', ''my video.mp4'', ''-s'', ''854x480'', ''-c:a'', ''copy'',
         ''-ar'', ''44100'', ''-pix_fmt'', ''yuv420p'', ''-tune'', ''zerolatency'',
         ''-maxrate'', ''2000k'', ''-preset'', ''veryfast'', ''-vcodec'', ''libx264'',
         ''-ab'', ''128k'', ''-vb'', ''660k'', ''-f'', ''flv'', ''rtmp://203.0.113.7/live''] \<noteq>
     [''ffmpeg'', ''-re'', ''-y'', ''-i'', ''my'', ''video.mp4'', ''-s'', ''854x480'', ''-c:a'', ''copy'',
         ''-ar'', ''44100'', ''-pix_fmt'', ''yuv420p'', ''-tune'', ''zerolatency'',
         ''-maxrate'', ''2000k'', ''-preset'', ''veryfast'', ''-vcodec'', ''libx264'',
         ''-ab'', ''128k'', ''-vb'', ''660k'', ''-f'', ''flv'', ''rtmp://203.0.113.7/live'']"
  by (simp add: build_ffmpeg_command_def resolution_map_def)

section \<open>Reading the diagnostic stream\<close>

text \<open>
  Claim C3, as the code has it. Take a call of \<^verbatim>\<open>start_ffmpeg\<close> that launches: the
  destination resolves, the command is built, no child of the handle is still running and
  \<^verbatim>\<open>subprocess.Popen\<close> returns; and let the first calls of \<^verbatim>\<open>readline\<close> on the child's
  standard error return the lines \<open>ls\<close>. If the next call returns the empty string (the
  end of the stream), the call of \<^verbatim>\<open>start_ffmpeg\<close> returns after exactly
  \<open>length ls + 1\<close> calls of \<^verbatim>\<open>readline\<close>, and its logs are the lines, each stripped, joined
  with newlines. If the next call raises, \<^verbatim>\<open>start_ffmpeg\<close> returns at once with the message
  "An error occurred: ..." and empty logs, the child still running and named by the
  handle. If every call returns a line, \<^verbatim>\<open>start_ffmpeg\<close> does not return.
\<close>

theorem start_ffmpeg_reads_stderr:
  assumes "resolve_hostname (gethostbyname env) rtmp_url = Inr (Some resolved, None)"
    and "build_ffmpeg_command video_url logo_url overlay_settings enable_logo resolution resolved
           fps audio_option = Inr (command, command_str)"
    and "\<forall>p. ffmpeg_process w = Some p \<longrightarrow> p \<notin> alive w"
    and "popen_raises env = None"
    and "\<forall>i<length ls. stderr_readline env i = Inr (ls ! i) \<and> ls ! i \<noteq> []"
  shows "(stderr_readline env (length ls) = Inr [] \<longrightarrow>
           (\<exists>w' out pre.
              start_ffmpeg env video_url logo_url overlay_settings enable_logo resolution rtmp_url
                fps audio_option w =
                Some (w', Inr (out, join_str [CHR 0x0A] (map strip ls), command_str)) \<and>
              oslog w' = pre @ Popen command (spawned w) #
                           replicate (Suc (length ls)) (Readline (spawned w)) @
                           [Poll (spawned w)])) \<and>
         (\<forall>e. stderr_readline env (length ls) = Inl e \<longrightarrow>
           (\<exists>w' pre.
              start_ffmpeg env video_url logo_url overlay_settings enable_logo resolution rtmp_url
                fps audio_option w =
                Some (w', Inr (''An error occurred: '' @ e, [], command_str)) \<and>
              oslog w' = pre @ Popen command (spawned w) #
                           replicate (Suc (length ls)) (Readline (spawned w)) \<and>
              ffmpeg_process w' = Some (spawned w) \<and> spawned w \<in> alive w')) \<and>
         ((\<forall>i. \<exists>line. stderr_readline env i = Inr line \<and> line \<noteq> []) \<longrightarrow>
            start_ffmpeg env video_url logo_url overlay_settings enable_logo resolution rtmp_url
              fps audio_option w = None)"
proof -
  have s: "start_ffmpeg env video_url logo_url overlay_settings enable_logo resolution rtmp_url
             fps audio_option w = start_ffmpeg_try env command command_str w"
    using assms(1,2) by (simp add: start_ffmpeg_def)
  show ?thesis
  proof (intro conjI impI allI)
    assume "stderr_readline env (length ls) = Inr []"
    with assms(5) have r: "read_stderr (stderr_readline env) 0 [] =
        Some (Suc (length ls), Inr (map strip ls))"
      by (rule read_stderr_eof)
    show "\<exists>w' out pre.
              start_ffmpeg env video_url logo_url overlay_settings enable_logo resolution rtmp_url
                fps audio_option w =
                Some (w', Inr (out, join_str [CHR 0x0A] (map strip ls), command_str)) \<and>
              oslog w' = pre @ Popen command (spawned w) #
                           replicate (Suc (length ls)) (Readline (spawned w)) @
                           [Poll (spawned w)]"
      unfolding s using start_ffmpeg_try_launch [OF assms(3,4) r, of command command_str]
      by blast
  next
    fix e assume "stderr_readline env (length ls) = Inl e"
    with assms(5) have r: "read_stderr (stderr_readline env) 0 [] =
        Some (Suc (length ls), Inl e)"
      by (rule read_stderr_raises)
    show "\<exists>w' pre.
              start_ffmpeg env video_url logo_url overlay_settings enable_logo resolution rtmp_url
                fps audio_option w =
                Some (w', Inr (''An error occurred: '' @ e, [], command_str)) \<and>
              oslog w' = pre @ Popen command (spawned w) #
                           replicate (Suc (length ls)) (Readline (spawned w)) \<and>
              ffmpeg_process w' = Some (spawned w) \<and> spawned w \<in> alive w'"
      unfolding s using start_ffmpeg_try_read_error [OF assms(3,4) r, of command command_str]
      by blast
  next
    assume "\<forall>i. \<exists>line. stderr_readline env i = Inr line \<and> line \<noteq> []"
    then have "read_stderr (stderr_readline env) 0 [] = None" by (rule read_stderr_diverges)
    then show "start_ffmpeg env video_url logo_url overlay_settings enable_logo resolution
        rtmp_url fps audio_option w = None"
      unfolding s using assms(3,4) by (intro start_ffmpeg_try_blocks)
  qed
qed

theorem start_ffmpeg_reads_stderr_witness:
  "(\<exists>w' out pre.
      start_ffmpeg
        \<lparr>gethostbyname = (\<lambda>h. if h = ''cdn.tv'' then Resolved ''203.0.113.7'' else Gaierror),
       popen_raises = None,
       stderr_readline = (\<lambda>i. if i = 0 then Inr ''frame=1 fps=30 \<newline>''
                                else if i = 1 then Inr '' video:12kB\<newline>'' else Inr []),
       exited_at_eof = True\<rparr>
        ''in.m3u8'' ''logo.png'' ''overlay=W-w-45:37'' False ''480p''
       ''rtmp://cdn.tv/live'' 0 ''Copy Audio from File'' init_world =
        Some (w', Inr (out, ''frame=1 fps=30\<newline>video:12kB'',
                ''ffmpeg -re -y -i in.m3u8 -s 854x480 -c:a copy -ar 44100 -pix_fmt yuv420p -tune zerolatency -maxrate 2000k -preset veryfast -vcodec libx264 -ab 128k -vb 660k -f flv rtmp://203.0.113.7/live'')) \<and>
      oslog w' = pre @ [Popen [''ffmpeg'', ''-re'', ''-y'', ''-i'', ''in.m3u8'', ''-s'', ''854x480'', ''-c:a'', ''copy'',
         ''-ar'', ''44100'', ''-pix_fmt'', ''yuv420p'', ''-tune'', ''zerolatency'',
         ''-maxrate'', ''2000k'', ''-preset'', ''veryfast'', ''-vcodec'', ''libx264'',
         ''-ab'', ''128k'', ''-vb'', ''660k'', ''-f'', ''flv'', ''rtmp://203.0.113.7/live''] 0, Readline 0, Readline 0, Readline 0, Poll 0]) \<and>
   (\<exists>w' pre.
      start_ffmpeg
        \<lparr>gethostbyname = (\<lambda>h. if h = ''cdn.tv'' then Resolved ''203.0.113.7'' else Gaierror),
       popen_raises = None,
       stderr_readline = (\<lambda>i. if i = 0 then Inr ''frame=1 fps=30 \<newline>''
                                else Inl ''invalid start byte''),
       exited_at_eof = True\<rparr>
        ''in.m3u8'' ''logo.png'' ''overlay=W-w-45:37'' False ''480p''
       ''rtmp://cdn.tv/live'' 0 ''Copy Audio from File'' init_world =
        Some (w', Inr (''An error occurred: invalid start byte'', [],
                ''ffmpeg -re -y -i in.m3u8 -s 854x480 -c:a copy -ar 44100 -pix_fmt yuv420p -tune zerolatency -maxrate 2000k -preset veryfast -vcodec libx264 -ab 128k -vb 660k -f flv rtmp://203.0.113.7/live'')) \<and>
      oslog w' = pre @ [Popen [''ffmpeg'', ''-re'', ''-y'', ''-i'', ''in.m3u8'', ''-s'', ''854x480'', ''-c:a'', ''copy'',
         ''-ar'', ''44100'', ''-pix_fmt'', ''yuv420p'', ''-tune'', ''zerolatency'',
         ''-maxrate'', ''2000k'', ''-preset'', ''veryfast'', ''-vcodec'', ''libx264'',
         ''-ab'', ''128k'', ''-vb'', ''660k'', ''-f'', ''flv'', ''rtmp://203.0.113.7/live''] 0, Readline 0, Readline 0] \<and>
      ffmpeg_process w' = Some 0 \<and> 0 \<in> alive w') \<and>
   start_ffmpeg
     \<lparr>gethostbyname = (\<lambda>h. if h = ''cdn.tv'' then Resolved ''203.0.113.7'' else Gaierror),
       popen_raises = None,
       stderr_readline = (\<lambda>i. Inr ''frame\<newline>''),
       exited_at_eof = True\<rparr>
     ''in.m3u8'' ''logo.png'' ''overlay=W-w-45:37'' False ''480p''
       ''rtmp://cdn.tv/live'' 0 ''Copy Audio from File'' init_world = None"
  using start_ffmpeg_reads_stderr
    [where env = "\<lparr>gethostbyname = (\<lambda>h. if h = ''cdn.tv'' then Resolved ''203.0.113.7'' else Gaierror),
       popen_raises = None,
       stderr_readline = (\<lambda>i. if i = 0 then Inr ''frame=1 fps=30 \<newline>''
                                else if i = 1 then Inr '' video:12kB\<newline>'' else Inr []),
       exited_at_eof = True\<rparr>"
       and rtmp_url = "''rtmp://cdn.tv/live''" and resolved = "''rtmp://203.0.113.7/live''"
       and w = init_world
       and ls = "[''frame=1 fps=30 \<newline>'', '' video:12kB\<newline>'']",
       OF _ build_example]
    start_ffmpeg_reads_stderr
    [where env = "\<lparr>gethostbyname = (\<lambda>h. if h = ''cdn.tv'' then Resolved ''203.0.113.7'' else Gaierror),
       popen_raises = None,
       stderr_readline = (\<lambda>i. if i = 0 then Inr ''frame=1 fps=30 \<newline>''
                                else Inl ''invalid start byte''),
       exited_at_eof = True\<rparr>"
       and rtmp_url = "''rtmp://cdn.tv/live''" and resolved = "''rtmp://203.0.113.7/live''"
       and w = init_world and ls = "[''frame=1 fps=30 \<newline>'']", OF _ build_example]
    start_ffmpeg_reads_stderr
    [where env = "\<lparr>gethostbyname = (\<lambda>h. if h = ''cdn.tv'' then Resolved ''203.0.113.7'' else Gaierror),
       popen_raises = None,
       stderr_readline = (\<lambda>i. Inr ''frame\<newline>''),
       exited_at_eof = True\<rparr>"
       and rtmp_url = "''rtmp://cdn.tv/live''" and resolved = "''rtmp://203.0.113.7/live''"
       and w = init_world and ls = "[]", OF _ build_example]
  by (simp add: resolve_example strip_example init_world_def numeral_2_eq_2 less_Suc_eq)

text \<open>
  Claim C3 as the specification words it lets \<^verbatim>\<open>start_ffmpeg\<close> return only at the end of the stream,
  with the stripped lines as logs. Here the second read raises: the call returns with
  empty logs although one line was read, and no read has returned the empty string.
\<close>

theorem start_ffmpeg_reads_stderr_counterexample:
  "start_ffmpeg
     \<lparr>gethostbyname = (\<lambda>h. if h = ''cdn.tv'' then Resolved ''203.0.113.7'' else Gaierror),
       popen_raises = None,
       stderr_readline = (\<lambda>i. if i = 0 then Inr ''frame=1 fps=30 \<newline>''
                                else Inl ''invalid start byte''),
       exited_at_eof = True\<rparr>
     ''in.m3u8'' ''logo.png'' ''overlay=W-w-45:37'' False ''480p''
       ''rtmp://cdn.tv/live'' 0 ''Copy Audio from File'' init_world =
   Some (\<lparr>ffmpeg_process = Some 0, alive = {0}, spawned = 1,
          oslog = [Popen [''ffmpeg'', ''-re'', ''-y'', ''-i'', ''in.m3u8'', ''-s'', ''854x480'', ''-c:a'', ''copy'',
         ''-ar'', ''44100'', ''-pix_fmt'', ''yuv420p'', ''-tune'', ''zerolatency'',
         ''-maxrate'', ''2000k'', ''-preset'', ''veryfast'', ''-vcodec'', ''libx264'',
         ''-ab'', ''128k'', ''-vb'', ''660k'', ''-f'', ''flv'', ''rtmp://203.0.113.7/live''] 0, Readline 0, Readline 0]\<rparr>,
         Inr (''An error occurred: invalid start byte'', [],
              ''ffmpeg -re -y -i in.m3u8 -s 854x480 -c:a copy -ar 44100 -pix_fmt yuv420p -tune zerolatency -maxrate 2000k -preset veryfast -vcodec libx264 -ab 128k -vb 660k -f flv rtmp://203.0.113.7/live''))"
  by (rule start_error_example)

section \<open>The process handle\<close>






end
